theory Spec2Isabelle
  imports Complex_Main "HOL-Library.Word" "HOL-Library.AList" "HOL-Library.Log_Nat"
begin

section \<open>JavaScript strings\<close>

text \<open>
  A JavaScript string is a sequence of UTF-16 code units, and \<open>length\<close>, \<open>substring\<close>,
  \<open>indexOf\<close> and \<open>slice\<close> all count code units. The tweets of this program are written in
  Persian, Arabic, Chinese and other scripts, so a code unit is a 16-bit word here and not
  an 8-bit \<open>char\<close>. The program's ASCII literals are embedded with \<open>js\<close>.
\<close>

type_synonym code_unit = "16 word"
type_synonym js_string = "code_unit list"

definition js :: "string \<Rightarrow> js_string" where
  "js s = map of_char s"

text \<open>\<open>s.startsWith(p)\<close>.\<close>

fun startsWith :: "'a list \<Rightarrow> 'a list \<Rightarrow> bool" where
  "startsWith s [] = True"
| "startsWith [] (p # ps) = False"
| "startsWith (c # cs) (p # ps) = (c = p \<and> startsWith cs ps)"

text \<open>\<open>s.indexOf(p)\<close>: the first position where \<open>p\<close> occurs; \<open>None\<close> stands for \<open>-1\<close>.\<close>

fun indexOf :: "'a list \<Rightarrow> 'a list \<Rightarrow> nat option" where
  "indexOf [] p = (if p = [] then Some 0 else None)"
| "indexOf (c # cs) p =
     (if startsWith (c # cs) p then Some 0 else map_option Suc (indexOf cs p))"

text \<open>\<open>s.includes(p)\<close>.\<close>

definition includes_str :: "'a list \<Rightarrow> 'a list \<Rightarrow> bool" where
  "includes_str s p = (indexOf s p \<noteq> None)"

text \<open>
  \<open>s.substring(a, b)\<close> and \<open>s.slice(a, b)\<close> for \<open>0 \<le> a \<le> b\<close> (the only way the program
  calls them), and \<open>s.substring(a)\<close>. Both clamp at the end of the string.
\<close>

definition substring :: "'a list \<Rightarrow> nat \<Rightarrow> nat \<Rightarrow> 'a list" where
  "substring s a b = take (b - a) (drop a s)"

definition substring_from :: "'a list \<Rightarrow> nat \<Rightarrow> 'a list" where
  "substring_from s a = drop a s"

text \<open>
  \<open>s.split(sep)\<close> for a separator of one code unit: the pieces between the separators, in
  order; a string without separator (the empty string too) gives one piece.
\<close>

fun split_acc :: "'a \<Rightarrow> 'a list \<Rightarrow> 'a list \<Rightarrow> 'a list list" where
  "split_acc sep cur [] = [cur]"
| "split_acc sep cur (c # cs) =
     (if c = sep then cur # split_acc sep [] cs else split_acc sep (cur @ [c]) cs)"

definition split :: "'a list \<Rightarrow> 'a \<Rightarrow> 'a list list" where
  "split s sep = split_acc sep [] s"

text \<open>
  \<open>s.trim()\<close> removes white space and line terminators (ECMAScript \<open>WhiteSpace\<close> and
  \<open>LineTerminator\<close>) from both ends.
\<close>

definition is_ws :: "code_unit \<Rightarrow> bool" where
  "is_ws c =
     (c \<in> {0x09, 0x0A, 0x0B, 0x0C, 0x0D, 0x20, 0xA0, 0x1680, 0x2028, 0x2029, 0x202F,
            0x205F, 0x3000, 0xFEFF}
      \<or> (0x2000 \<le> c \<and> c \<le> 0x200A))"

definition trim :: "js_string \<Rightarrow> js_string" where
  "trim s = rev (dropWhile is_ws (rev (dropWhile is_ws s)))"

section \<open>aiService.js: assembling the tweet\<close>

definition REQUIRED_TAGS :: js_string where
  "REQUIRED_TAGS = js ''@giverep @PawtatoFinance $REP''"

text \<open>
  What the call of the AI provider (lines 172--215 of aiService.js) comes to: the content of
  the first choice, or a thrown error (a failed request, a response without choices, a
  content that is not a string), or a thrown \<open>null\<close>/\<open>undefined\<close>, whose \<open>.message\<close> the
  handler of line 247 cannot read, so that the outer handler of line 270 takes over.
\<close>

datatype ai_outcome = Generated js_string | AiError | AiThrewNullish

definition finalFallbackTweet :: js_string where
  "finalFallbackTweet =
     js ''GiveRep airdrop on Sui network is now live! Join the community and earn rewards by participating. Register now! ''
     @ REQUIRED_TAGS"

text \<open>
  \<open>generateTweet\<close>, with the two things it reads from outside made arguments: the outcome
  \<open>ai\<close> of the provider call, and the text \<open>alternativeText\<close> that \<open>getAlternativeAIText\<close>
  draws at random from its table. The three branches each carry their own copy of the
  length check, as the source does.
\<close>

definition generateTweet :: "js_string \<Rightarrow> ai_outcome \<Rightarrow> js_string \<Rightarrow> js_string" where
  "generateTweet aiServiceName ai alternativeText =
     (if aiServiceName = js ''Fallback'' then
        (let tweetText = alternativeText @ js '' '' @ REQUIRED_TAGS in
         if length tweetText > 280 then
           (let maxMainTextLength = 280 - length REQUIRED_TAGS - 1 in
            substring alternativeText 0 maxMainTextLength @ js ''... '' @ REQUIRED_TAGS)
         else tweetText)
      else
        (case ai of
           Generated content \<Rightarrow>
             (let generatedText = trim content;
                  tweetText = generatedText @ js '' '' @ REQUIRED_TAGS in
              if length tweetText > 280 then
                (let maxMainTextLength = 280 - length REQUIRED_TAGS - 1;
                     truncatedText = substring generatedText 0 maxMainTextLength @ js ''...''
                 in truncatedText @ js '' '' @ REQUIRED_TAGS)
              else tweetText)
         | AiError \<Rightarrow>
             (let tweetText = alternativeText @ js '' '' @ REQUIRED_TAGS in
              if length tweetText > 280 then
                (let maxMainTextLength = 280 - length REQUIRED_TAGS - 1 in
                 substring alternativeText 0 maxMainTextLength @ js ''... '' @ REQUIRED_TAGS)
              else tweetText)
         | AiThrewNullish \<Rightarrow> finalFallbackTweet))"

section \<open>twitterService.js: data\<close>

text \<open>
  The credentials of one account, and the client object \<open>{client, accountNumber}\<close> built
  from them. The provider session \<open>new TwitterApi({...})\<close> is determined by the four
  credential strings, so the credentials stand for it.
\<close>

record credentials =
  appKey :: js_string
  appSecret :: js_string
  accessToken :: js_string
  accessSecret :: js_string

record client_obj =
  c_client :: credentials
  c_accountNumber :: int

text \<open>
  What a \<open>catch\<close> clause can receive: an error object with its optional numeric \<open>code\<close>
  and its \<open>message\<close>, or \<open>null\<close>/\<open>undefined\<close> (a property read on it raises a TypeError).
\<close>

datatype thrown = ErrorObj (e_code: "int option") (e_message: js_string) | Nullish

text \<open>
  The outcome of \<open>twitterClient.v2.tweet(text)\<close>: a response, of which the program reads
  \<open>response.data.id\<close> only (\<open>None\<close> when the response, its \<open>data\<close> or the \<open>id\<close> is
  missing), or a thrown value.
\<close>

datatype tweet_outcome = Responded "js_string option" | Threw thrown

text \<open>The object \<open>{success, response, error, accountNumber}\<close> that a posting attempt returns.\<close>

record post_result =
  r_success :: bool
  r_response_id :: "js_string option"
  r_error :: "thrown option"
  r_accountNumber :: int

text \<open>One element of \<open>accounts\<close> in a history entry, and the history entry.\<close>

record account_outcome =
  o_accountNumber :: int
  o_success :: bool
  o_simulated :: bool
  o_tweetId :: "js_string option"
  o_error :: "js_string option"

record tweet_record =
  h_timestamp :: js_string
  h_text :: js_string
  h_accounts :: "account_outcome list"

text \<open>One element of the failure queue.\<close>

record failed_tweet =
  f_timestamp :: js_string
  f_text :: js_string
  f_accountNumber :: int

text \<open>
  A JSON file as the program meets it: missing, present with a text that \<open>JSON.parse\<close>
  rejects, present with a JSON value that is not an array (an object, a string, a number or
  a boolean), or present with an array.
\<close>

datatype 'a json_file = Absent | Unparsable | NotArray | Entries "'a list"

record twitter_config =
  maxRetries :: "int option"
  retryDelay :: "int option"

record config =
  twitterConfig :: "twitter_config option"

text \<open>
  The world outside the program: the calls of the provider's tweet endpoint so far (client
  and text, oldest first), the sleeps so far (milliseconds), how often the clock has been
  read, and the two JSON files. File system calls themselves are taken to succeed.
\<close>

record world =
  tweeted :: "(credentials \<times> js_string) list"
  slept :: "int list"
  clock_reads :: nat
  tweet_history_json :: "tweet_record json_file"
  failed_tweets_json :: "failed_tweet json_file"

text \<open>
  The UTC fields of a \<open>Date\<close>. The clock and the provider are the environment: each may
  answer from everything that has happened so far.
\<close>

record date_time =
  year :: nat
  month :: nat
  day :: nat
  hours :: nat
  minutes :: nat
  seconds :: nat
  milliseconds :: nat

type_synonym clock = "world \<Rightarrow> date_time"
type_synonym provider = "world \<Rightarrow> credentials \<Rightarrow> js_string \<Rightarrow> tweet_outcome"

definition sleep :: "int \<Rightarrow> world \<Rightarrow> world" where
  "sleep ms w = w\<lparr>slept := slept w @ [ms]\<rparr>"

text \<open>\<open>new Date()\<close>: the date the clock shows, and the world with one more reading.\<close>

definition new_Date :: "clock \<Rightarrow> world \<Rightarrow> date_time \<times> world" where
  "new_Date clock w = (clock w, w\<lparr>clock_reads := Suc (clock_reads w)\<rparr>)"

subsection \<open>\<open>Date.prototype.toISOString\<close>\<close>

fun decimal :: "nat \<Rightarrow> js_string" where
  "decimal n =
     (if n < 10 then [of_nat (48 + n)] else decimal (n div 10) @ [of_nat (48 + n mod 10)])"

declare decimal.simps [simp del]

definition padStart :: "js_string \<Rightarrow> nat \<Rightarrow> code_unit \<Rightarrow> js_string" where
  "padStart s n c = replicate (n - length s) c @ s"

text \<open>
  \<open>YYYY-MM-DDTHH:mm:ss.sssZ\<close>; a year beyond 9999 is written with a sign and six digits.
\<close>

definition toISOString :: "date_time \<Rightarrow> js_string" where
  "toISOString d =
     (if year d \<le> 9999 then padStart (decimal (year d)) 4 0x30
      else js ''+'' @ padStart (decimal (year d)) 6 0x30)
     @ js ''-'' @ padStart (decimal (month d)) 2 0x30
     @ js ''-'' @ padStart (decimal (day d)) 2 0x30
     @ js ''T'' @ padStart (decimal (hours d)) 2 0x30
     @ js '':'' @ padStart (decimal (minutes d)) 2 0x30
     @ js '':'' @ padStart (decimal (seconds d)) 2 0x30
     @ js ''.'' @ padStart (decimal (milliseconds d)) 3 0x30
     @ js ''Z''"

text \<open>The dates a running clock shows.\<close>

definition valid_date :: "date_time \<Rightarrow> bool" where
  "valid_date d =
     (year d \<le> 9999 \<and> 1 \<le> month d \<and> month d \<le> 12 \<and> 1 \<le> day d \<and> day d \<le> 31
      \<and> hours d < 24 \<and> minutes d < 60 \<and> seconds d < 60 \<and> milliseconds d < 1000)"

subsection \<open>\<open>saveTweetHistory\<close>\<close>

text \<open>
  The summary of one result kept in the history. A result of this program has no
  \<open>simulated\<close> field, so \<open>result.simulated || false\<close> is \<open>false\<close>.
\<close>

definition outcome_of :: "post_result \<Rightarrow> account_outcome" where
  "outcome_of result =
     \<lparr>o_accountNumber = r_accountNumber result,
      o_success = r_success result,
      o_simulated = False,
      o_tweetId =
        (if r_success result \<or> False then
           Some (case r_response_id result of
                   None \<Rightarrow> js ''unknown''
                 | Some i \<Rightarrow> if i = [] then js ''unknown'' else i)
         else None),
      o_error =
        (if r_success result then None
         else Some (case r_error result of
                      Some (ErrorObj c m) \<Rightarrow> if m = [] then js ''Unknown error'' else m
                    | _ \<Rightarrow> js ''Unknown error''))\<rparr>"

text \<open>
  \<open>saveTweetHistory\<close> returns the history it has written. On a file that holds a JSON
  value without \<open>push\<close>, the call \<open>history.push\<close> raises after the record (and its
  timestamp) has been built; the handler returns \<open>[]\<close> and nothing is written.
\<close>

definition saveTweetHistory ::
  "clock \<Rightarrow> js_string \<Rightarrow> post_result list \<Rightarrow> world \<Rightarrow> tweet_record list \<times> world" where
  "saveTweetHistory clock tweetText results w =
     (let (now, w1) = new_Date clock w;
          tweetRecord = \<lparr>h_timestamp = toISOString now, h_text = tweetText,
                         h_accounts = map outcome_of results\<rparr>
      in case tweet_history_json w of
           NotArray \<Rightarrow> ([], w1)
         | file \<Rightarrow>
             (let history = (case file of Entries h \<Rightarrow> h | _ \<Rightarrow> []);
                  history = history @ [tweetRecord];
                  history = (if length history > 100
                             then drop (length history - 100) history else history)
              in (history, w1\<lparr>tweet_history_json := Entries history\<rparr>)))"

subsection \<open>\<open>saveFailedTweet\<close>\<close>

text \<open>
  The arguments of \<open>failedTweets.push\<close> (with the timestamp) are evaluated before the call
  raises on a value without \<open>push\<close>; the handler then leaves the file as it is.
\<close>

definition saveFailedTweet :: "clock \<Rightarrow> js_string \<Rightarrow> int \<Rightarrow> world \<Rightarrow> world" where
  "saveFailedTweet clock tweetText accountNumber w =
     (let (now, w1) = new_Date clock w;
          entry = \<lparr>f_timestamp = toISOString now, f_text = tweetText,
                   f_accountNumber = accountNumber\<rparr>
      in case failed_tweets_json w of
           NotArray \<Rightarrow> w1
         | file \<Rightarrow>
             (let failedTweets = (case file of Entries q \<Rightarrow> q | _ \<Rightarrow> [])
              in w1\<lparr>failed_tweets_json := Entries (failedTweets @ [entry])\<rparr>))"

subsection \<open>Numbers\<close>

text \<open>
  A JavaScript number is an IEEE 754 double. \<open>to_double x\<close> is the double nearest to the
  rational \<open>x\<close> (ties to the even significand), for \<open>x = 0\<close> and for positive \<open>x\<close> in the
  range of normal doubles, which is all the delay policy needs: a quotient \<open>a / b\<close> of two
  doubles is \<open>to_double\<close> of the exact quotient, and a decimal literal such as \<open>0.3\<close> denotes
  \<open>to_double\<close> of that decimal. \<open>exponent_of x\<close> is \<open>\<lfloor>log\<^sub>2 x\<rfloor>\<close>, found from the bit lengths
  of numerator and denominator.
\<close>

definition round_half_even :: "rat \<Rightarrow> int" where
  "round_half_even x =
     (let n = \<lfloor>x\<rfloor>; r = x - of_int n
      in if r < 1 / 2 then n else if 1 / 2 < r then n + 1 else if even n then n else n + 1)"

definition exponent_of :: "rat \<Rightarrow> int" where
  "exponent_of x =
     (let (a, b) = quotient_of x;
          d = int (floorlog 2 (nat a)) - int (floorlog 2 (nat b))
      in if 2 powi d \<le> x then d else d - 1)"

definition to_double :: "rat \<Rightarrow> rat" where
  "to_double x =
     (if x = 0 then 0
      else (let e = exponent_of x - 52
            in of_int (round_half_even (x / 2 powi e)) * 2 powi e))"

subsection \<open>\<open>calculateSmartDelay\<close>\<close>

text \<open>
  The loop of lines 242--248, over the history read from its newest entry to its oldest:
  it stops at the end of the history or once ten outcomes are collected.
\<close>

fun scan_history :: "int \<Rightarrow> tweet_record list \<Rightarrow> account_outcome list \<Rightarrow> account_outcome list" where
  "scan_history accountNumber [] accountHistory = accountHistory"
| "scan_history accountNumber (tweet # older) accountHistory =
     (if length accountHistory < 10 then
        (case find (\<lambda>a. o_accountNumber a = accountNumber) (h_accounts tweet) of
           Some accountTweet \<Rightarrow> scan_history accountNumber older (accountHistory @ [accountTweet])
         | None \<Rightarrow> scan_history accountNumber older accountHistory)
      else accountHistory)"

text \<open>The history argument is \<open>None\<close> when the caller passes \<open>null\<close> or \<open>undefined\<close>.\<close>

definition calculateSmartDelay :: "int \<Rightarrow> tweet_record list option \<Rightarrow> nat" where
  "calculateSmartDelay accountNumber history =
     (let defaultDelay = 30000 in
      case history of
        None \<Rightarrow> defaultDelay
      | Some history \<Rightarrow>
          if length history = 0 then defaultDelay
          else
            (let accountHistory = scan_history accountNumber (rev history) [] in
             if length accountHistory < 3 then defaultDelay
             else
               (let errorCount = length (filter (\<lambda>t. \<not> o_success t) accountHistory);
                    errorRate = to_double (of_nat errorCount / of_nat (length accountHistory))
                in if errorRate > to_double 0.5 then 120000
                   else if errorRate > to_double 0.3 then 60000
                   else if errorRate > to_double 0.1 then 45000
                   else 30000)))"

subsection \<open>\<open>postTweetWithClient\<close>\<close>

text \<open>
  The inner \<open>try\<close> block (lines 290--315): the validation, the call of the provider and the
  check of its response. \<open>Inr\<close> carries the remote identifier of a successful post, \<open>Inl\<close>
  what the block throws.
\<close>

definition try_tweet ::
  "provider \<Rightarrow> js_string \<Rightarrow> client_obj \<Rightarrow> world \<Rightarrow> (thrown + js_string) \<times> world" where
  "try_tweet provider tweetText twitterClientObj w =
     (if tweetText = [] then (Inl (ErrorObj None (js ''Tweet text is empty'')), w)
      else if length tweetText > 280 then
        (Inl (ErrorObj None (js ''Tweet text exceeds maximum length of 280 characters'')), w)
      else
        (let w1 = w\<lparr>tweeted := tweeted w @ [(c_client twitterClientObj, tweetText)]\<rparr> in
         case provider w (c_client twitterClientObj) tweetText of
           Threw e \<Rightarrow> (Inl e, w1)
         | Responded None \<Rightarrow>
             (Inl (ErrorObj None (js ''Invalid response from Twitter API'')), w1)
         | Responded (Some i) \<Rightarrow>
             if i = [] then (Inl (ErrorObj None (js ''Invalid response from Twitter API'')), w1)
             else (Inr i, w1)))"

text \<open>The TypeError of a property read on \<open>null\<close> or \<open>undefined\<close>.\<close>

definition TypeError :: thrown where
  "TypeError = ErrorObj None (js ''Cannot read properties of null'')"

text \<open>\<open>(config.twitterConfig?.retryDelay || 300) * 1000\<close>.\<close>

definition waitTime :: "config \<Rightarrow> int" where
  "waitTime config =
     (case twitterConfig config of
        None \<Rightarrow> 300
      | Some tc \<Rightarrow> (case retryDelay tc of None \<Rightarrow> 300 | Some d \<Rightarrow> if d = 0 then 300 else d))
     * 1000"

text \<open>
  Lines 337--345: the text made unique with the time marker. When \<open>indexOf\<close> gives \<open>-1\<close>
  (which \<open>includes\<close> excludes), \<open>substring(0, -1)\<close> is empty and \<open>substring(-1)\<close> the whole
  text.
\<close>

definition uniqueTweet :: "js_string \<Rightarrow> js_string \<Rightarrow> js_string" where
  "uniqueTweet timestamp tweetText =
     (if includes_str tweetText (js ''@giverep'') then
        (case indexOf tweetText (js ''@giverep'') of
           Some tagIndex \<Rightarrow>
             substring tweetText 0 tagIndex @ js ''['' @ timestamp @ js ''] ''
             @ substring_from tweetText tagIndex
         | None \<Rightarrow> js ''['' @ timestamp @ js ''] '' @ tweetText)
      else tweetText @ js '' ['' @ timestamp @ js '']'')"

text \<open>
  \<open>postTweetWithClient\<close>. The value is \<open>Inr\<close> of the result object when the promise
  fulfils and \<open>Inl\<close> of the thrown value when it rejects. The handler of line 316 starts
  with \<open>parseTwitterError\<close>, whose text is only logged; it reads \<open>error.message\<close>, which
  raises a TypeError on \<open>null\<close>/\<open>undefined\<close>, and that one the outer handler of line 361
  turns into a result. The two retries return the promise of the recursive call without
  awaiting it, so a rejection of that promise would pass to the caller. The retry budget
  \<open>retryCount\<close> is an integer: the callers pass \<open>maxRetries\<close> or 1.
\<close>

function postTweetWithClient ::
  "provider \<Rightarrow> clock \<Rightarrow> js_string \<Rightarrow> client_obj \<Rightarrow> config \<Rightarrow> int \<Rightarrow> world
   \<Rightarrow> (thrown + post_result) \<times> world" where
  "postTweetWithClient provider clock tweetText twitterClientObj config retryCount w =
     (let accountNumber = c_accountNumber twitterClientObj in
      case try_tweet provider tweetText twitterClientObj w of
        (Inr i, w1) \<Rightarrow>
          (Inr \<lparr>r_success = True, r_response_id = Some i, r_error = None,
                r_accountNumber = accountNumber\<rparr>, w1)
      | (Inl twitterError, w1) \<Rightarrow>
          (case twitterError of
             Nullish \<Rightarrow>
               (Inr \<lparr>r_success = False, r_response_id = None, r_error = Some TypeError,
                     r_accountNumber = accountNumber\<rparr>, w1)
           | ErrorObj code message \<Rightarrow>
               if code = Some 429 \<and> retryCount > 0 then
                 postTweetWithClient provider clock tweetText twitterClientObj config
                   (retryCount - 1) (sleep (waitTime config) w1)
               else if code = Some 187 \<and> retryCount > 0 then
                 (let (now, w2) = new_Date clock w1;
                      timestamp = substring (toISOString now) 11 19
                  in postTweetWithClient provider clock (uniqueTweet timestamp tweetText)
                       twitterClientObj config (retryCount - 1) (sleep 2000 w2))
               else
                 (Inr \<lparr>r_success = False, r_response_id = None, r_error = Some twitterError,
                       r_accountNumber = accountNumber\<rparr>,
                  saveFailedTweet clock tweetText accountNumber w1)))"
  by pat_completeness auto

termination
  by (relation "measure (\<lambda>(provider, clock, tweetText, twitterClientObj, config, retryCount, w).
                  nat retryCount)") auto

declare postTweetWithClient.simps [simp del]

subsection \<open>\<open>retryFailedTweets\<close>\<close>








subsection \<open>\<open>lazyLoadTwitterClient\<close>\<close>

record account = credentials +
  a_accountNumber :: int

text \<open>
  The body of the \<open>forEach\<close> of lines 523--551, as a step on the two variables
  \<open>lineCount\<close> and \<open>account\<close> that it updates.
\<close>

definition load_line ::
  "int \<Rightarrow> js_string \<Rightarrow> nat \<times> account option \<Rightarrow> js_string \<Rightarrow> nat \<times> account option" where
  "load_line accountNumber fileContent st line =
     (let (lineCount, account) = st;
          lineCount = lineCount + 1
      in if trim line = [] \<or> startsWith (trim line) (js ''#'') then (lineCount, account)
         else
           (let parts = map trim (split line 0x2C) in
            if length parts = 4 then
              (let currentAccountNumber =
                     int lineCount
                     - int (length (filter (\<lambda>l. trim l = [] \<or> startsWith (trim l) (js ''#''))
                                      (split fileContent 0x0A)))
               in if currentAccountNumber = accountNumber then
                    (case parts of
                       [appKey', appSecret', accessToken', accessSecret'] \<Rightarrow>
                         if appKey' \<noteq> [] \<and> appSecret' \<noteq> [] \<and> accessToken' \<noteq> []
                            \<and> accessSecret' \<noteq> [] then
                           (lineCount,
                            Some \<lparr>appKey = appKey', appSecret = appSecret',
                                  accessToken = accessToken', accessSecret = accessSecret',
                                  a_accountNumber = accountNumber\<rparr>)
                         else (lineCount, account)
                     | _ \<Rightarrow> (lineCount, account))
                  else (lineCount, account))
            else (lineCount, account)))"

text \<open>
  \<open>lazyLoadTwitterClient\<close>, with the content of accounts.txt as an argument (\<open>None\<close> when
  the file cannot be read). It returns the client or \<open>null\<close>, and the list of clients, to
  which a newly built client has been pushed.
\<close>

definition lazyLoadTwitterClient ::
  "int \<Rightarrow> client_obj list \<Rightarrow> js_string option \<Rightarrow> client_obj option \<times> client_obj list" where
  "lazyLoadTwitterClient accountNumber twitterClients accounts_txt =
     (case find (\<lambda>c. c_accountNumber c = accountNumber) twitterClients of
        Some existingClient \<Rightarrow> (Some existingClient, twitterClients)
      | None \<Rightarrow>
          (case accounts_txt of
             None \<Rightarrow> (None, twitterClients)
           | Some fileContent \<Rightarrow>
               (let (lineCount, account) =
                      foldl (load_line accountNumber fileContent) (0, None)
                        (split fileContent 0x0A)
                in case account of
                     Some a \<Rightarrow>
                       (let client = \<lparr>c_client = \<lparr>appKey = appKey a, appSecret = appSecret a,
                                                   accessToken = accessToken a,
                                                   accessSecret = accessSecret a\<rparr>,
                                       c_accountNumber = a_accountNumber a\<rparr>
                        in (Some client, twitterClients @ [client]))
                   | None \<Rightarrow> (None, twitterClients))))"

section \<open>Notions of the specification\<close>

text \<open>The two decimal digits of a number below 100, as in \<open>HH\<close>, \<open>MM\<close> and \<open>SS\<close>.\<close>

definition two_digits :: "nat \<Rightarrow> js_string" where
  "two_digits n = [of_nat (48 + n div 10), of_nat (48 + n mod 10)]"

text \<open>The bracketed time marker \<open>[HH:MM:SS]\<close> of a date.\<close>

definition time_marker :: "date_time \<Rightarrow> js_string" where
  "time_marker d =
     js ''['' @ two_digits (hours d) @ js '':'' @ two_digits (minutes d) @ js '':''
     @ two_digits (seconds d) @ js '']''"

text \<open>The required mention token that the duplicate-content retry looks for.\<close>

definition mention_token :: js_string where
  "mention_token = js ''@giverep''"

text \<open>
  The sample of the delay policy in the words of the specification: of the entries that
  contain an outcome for the account, read from the newest to the oldest, the outcomes of
  the first ten at most.
\<close>

definition sampled_outcomes :: "int \<Rightarrow> tweet_record list \<Rightarrow> account_outcome list" where
  "sampled_outcomes accountNumber history =
     take 10 (List.map_filter
                (\<lambda>tweet. find (\<lambda>a. o_accountNumber a = accountNumber) (h_accounts tweet))
                (rev history))"

text \<open>The ladder of the specification, on the exact error rate.\<close>

definition delay_ladder :: "rat \<Rightarrow> nat" where
  "delay_ladder r =
     (if r > 1 / 2 then 120000 else if r > 3 / 10 then 60000
      else if r > 1 / 10 then 45000 else 30000)"



text \<open>
  The surviving data lines of a credentials file in the words of the specification: its
  lines that are neither blank nor comments, in file order.
\<close>

definition surviving_lines :: "js_string \<Rightarrow> js_string list" where
  "surviving_lines fileContent =
     filter (\<lambda>l. \<not> (trim l = [] \<or> startsWith (trim l) (js ''#''))) (split fileContent 0x0A)"

text \<open>
  The credentials of a data line: its four comma-separated fields, trimmed, when there are
  exactly four and none is empty.
\<close>

definition parse_credentials :: "js_string \<Rightarrow> credentials option" where
  "parse_credentials line =
     (case map trim (split line 0x2C) of
        [k, s, t, u] \<Rightarrow>
          if k \<noteq> [] \<and> s \<noteq> [] \<and> t \<noteq> [] \<and> u \<noteq> [] then
            Some \<lparr>appKey = k, appSecret = s, accessToken = t, accessSecret = u\<rparr>
          else None
      | _ \<Rightarrow> None)"

section \<open>Example inputs\<close>

definition ex_date :: date_time where
  "ex_date = \<lparr>year = 2024, month = 3, day = 9, hours = 7, minutes = 5, seconds = 59,
              milliseconds = 12\<rparr>"

definition ex_clock :: clock where
  "ex_clock w = ex_date"

definition ex_client :: client_obj where
  "ex_client = \<lparr>c_client = \<lparr>appKey = js ''k'', appSecret = js ''s'', accessToken = js ''t'',
                             accessSecret = js ''u''\<rparr>,
                c_accountNumber = 1\<rparr>"

definition ex_config :: config where
  "ex_config = \<lparr>twitterConfig = None\<rparr>"

definition ex_world :: world where
  "ex_world = \<lparr>tweeted = [], slept = [], clock_reads = 0, tweet_history_json = Absent,
               failed_tweets_json = Absent\<rparr>"

text \<open>A provider that answers every post with the duplicate-content error.\<close>

definition always_duplicate :: provider where
  "always_duplicate w c t = Threw (ErrorObj (Some 187) (js ''duplicate''))"

text \<open>A provider that accepts every post and answers with the identifier \<open>1\<close>.\<close>

definition always_ok :: provider where
  "always_ok w c t = Responded (Some (js ''1''))"

definition ex_record :: tweet_record where
  "ex_record = \<lparr>h_timestamp = js ''2024-03-08T10:00:00.000Z'', h_text = js ''old'',
                h_accounts = []\<rparr>"

text \<open>A history entry with one outcome, for account 1.\<close>

definition ex_entry :: "bool \<Rightarrow> tweet_record" where
  "ex_entry ok =
     \<lparr>h_timestamp = js ''2024-03-08T10:00:00.000Z'', h_text = js ''old'',
      h_accounts = [\<lparr>o_accountNumber = 1, o_success = ok, o_simulated = False,
                     o_tweetId = None, o_error = None\<rparr>]\<rparr>"



text \<open>A credentials file of two lines, each ended by a newline.\<close>

definition ex_accounts_txt :: js_string where
  "ex_accounts_txt = js ''a,b,c,d'' @ [0x0A] @ js ''e,f,g,h'' @ [0x0A]"

section \<open>Properties of the string functions\<close>

lemma startsWith_iff: "startsWith s p \<longleftrightarrow> (\<exists>r. s = p @ r)"
  by (induction s p rule: startsWith.induct) auto

lemma indexOf_Some:
  "indexOf s p = Some i \<Longrightarrow>
   i \<le> length s \<and> startsWith (drop i s) p \<and> (\<forall>j<i. \<not> startsWith (drop j s) p)"
proof (induction s arbitrary: i)
  case Nil
  then show ?case by (simp split: if_splits)
next
  case (Cons c cs)
  show ?case
  proof (cases "startsWith (c # cs) p")
    case True
    with Cons.prems show ?thesis by simp
  next
    case False
    with Cons.prems obtain k where k: "indexOf cs p = Some k" "i = Suc k" by auto
    from Cons.IH [OF k(1)] False k(2) show ?thesis
      by (auto simp: less_Suc_eq_0_disj)
  qed
qed

lemma indexOf_None:
  "indexOf s p = None \<Longrightarrow> \<not> startsWith (drop j s) p"
proof (induction s arbitrary: j)
  case Nil
  then show ?case by (cases p) (simp_all split: if_splits)
next
  case (Cons c cs)
  then show ?case by (cases j) (auto split: if_splits)
qed

lemma occurrence_startsWith: "s = a @ p @ b \<Longrightarrow> startsWith (drop (length a) s) p"
  by (simp add: startsWith_iff)

section \<open>The assembled tweet\<close>

lemma length_REQUIRED_TAGS: "length REQUIRED_TAGS = 29"
  by (simp add: REQUIRED_TAGS_def js_def)

lemma trim_replicate_a: "trim (replicate n 0x61) = replicate n 0x61"
  by (simp add: trim_def dropWhile_replicate is_ws_def)

lemma generateTweet_Generated_long:
  "aiServiceName \<noteq> js ''Fallback'' \<Longrightarrow> 250 < length (trim content) \<Longrightarrow>
   length (generateTweet aiServiceName (Generated content) alternativeText) = 283"
  by (simp add: generateTweet_def js_def length_REQUIRED_TAGS substring_def Let_def)

lemma generateTweet_Generated_short:
  "aiServiceName \<noteq> js ''Fallback'' \<Longrightarrow> length (trim content) \<le> 250 \<Longrightarrow>
   generateTweet aiServiceName (Generated content) alternativeText = trim content @ js '' '' @ REQUIRED_TAGS"
  by (simp add: generateTweet_def js_def length_REQUIRED_TAGS substring_def Let_def)

lemma generateTweet_cut_body:
  "aiServiceName \<noteq> js ''Fallback'' \<Longrightarrow> 250 < length (trim content) \<Longrightarrow>
   generateTweet aiServiceName (Generated content) alternativeText
     = take 250 (trim content) @ js ''...'' @ js '' '' @ REQUIRED_TAGS"
  by (simp add: generateTweet_def js_def length_REQUIRED_TAGS substring_def Let_def)

lemma generateTweet_alternative_long:
  "aiServiceName = js ''Fallback'' \<or> ai = AiError \<Longrightarrow> 250 < length alternativeText \<Longrightarrow>
   length (generateTweet aiServiceName ai alternativeText) = 283"
  by (auto simp: generateTweet_def js_def length_REQUIRED_TAGS substring_def Let_def)

text \<open>
  Claim C1: the tweet that \<open>generateTweet\<close> returns has at most 280 characters, because a
  body that is too long is cut to \<open>280 - tagLength - 1\<close> characters before the tags are
  appended again. The code cuts the body to those 250 characters, but then appends the
  ellipsis \<open>...\<close> as well, which the bound does not count: a generated body of 251
  characters gives a tweet of 283 characters.
\<close>

theorem generateTweet_exceeds_280:
  "length (generateTweet (js ''AIML'') (Generated (replicate 251 0x61)) []) = 283"
  by (simp add: generateTweet_def js_def trim_replicate_a length_REQUIRED_TAGS substring_def Let_def)

section \<open>The history store\<close>

text \<open>
  Claim C6: after an append by \<open>saveTweetHistory\<close> to a history file that holds the list
  \<open>prior\<close>, the stored history has at most 100 entries and ends with the new entry; it is
  the prior history with the new entry appended, without as many of its first (oldest)
  entries as exceed the bound. A prior history of fewer than 100 entries loses nothing, and
  one of exactly 100 entries loses exactly its first entry.
\<close>

theorem saveTweetHistory_bounded:
  "tweet_history_json w = Entries prior \<Longrightarrow>
   (let tweetRecord = \<lparr>h_timestamp = toISOString (clock w), h_text = tweetText,
                        h_accounts = map outcome_of results\<rparr>;
        (history, w') = saveTweetHistory clock tweetText results w
    in tweet_history_json w' = Entries history
       \<and> length history \<le> 100
       \<and> history \<noteq> [] \<and> last history = tweetRecord
       \<and> history = drop (length (prior @ [tweetRecord]) - 100) (prior @ [tweetRecord])
       \<and> (length prior < 100 \<longrightarrow> history = prior @ [tweetRecord])
       \<and> (length prior = 100 \<longrightarrow> history = tl prior @ [tweetRecord]))"
  by (auto simp add: saveTweetHistory_def new_Date_def Let_def drop_Suc split: json_file.splits)

theorem saveTweetHistory_bounded_witness:
  "tweet_history_json (ex_world\<lparr>tweet_history_json := Entries (replicate 100 ex_record)\<rparr>)
     = Entries (replicate 100 ex_record)
   \<and> fst (saveTweetHistory ex_clock (js ''gm'') []
            (ex_world\<lparr>tweet_history_json := Entries (replicate 100 ex_record)\<rparr>))
     = replicate 99 ex_record
       @ [\<lparr>h_timestamp = toISOString ex_date, h_text = js ''gm'', h_accounts = []\<rparr>]"
  using saveTweetHistory_bounded
    [of "ex_world\<lparr>tweet_history_json := Entries (replicate 100 ex_record)\<rparr>"
        "replicate 100 ex_record" ex_clock "js ''gm''" "[]"]
  by (simp add: Let_def case_prod_unfold ex_clock_def)

section \<open>The delay policy\<close>

lemma round_half_even_error: "\<bar>of_int (round_half_even y) - y\<bar> \<le> 1 / 2"
proof -
  have "of_int \<lfloor>y\<rfloor> \<le> y" "y < of_int \<lfloor>y\<rfloor> + 1" by linarith+
  then show ?thesis
    by (auto simp: round_half_even_def Let_def abs_le_iff)
qed

lemma exponent_of_le_0:
  assumes "0 < x" "x \<le> 1"
  shows "exponent_of x \<le> 0"
proof -
  obtain a b where q: "quotient_of x = (a, b)" by (cases "quotient_of x")
  have b: "0 < b" by (rule quotient_of_denom_pos [OF q])
  have x: "x = of_int a / of_int b" by (rule quotient_of_div [OF q])
  from assms(2) b have "a \<le> b" by (simp add: x)
  then have "floorlog 2 (nat a) \<le> floorlog 2 (nat b)"
    by (intro floorlog_mono) simp
  then show ?thesis by (simp add: exponent_of_def q Let_def)
qed

lemma to_double_error:
  assumes "0 \<le> x" "x \<le> 1"
  shows "\<bar>to_double x - x\<bar> \<le> 1 / 2 ^ 53"
proof (cases "x = 0")
  case True
  then show ?thesis by (simp add: to_double_def)
next
  case False
  with assms have pos: "0 < x" by simp
  define e where "e = exponent_of x - 52"
  define s :: rat where "s = 2 powi e"
  have "e \<le> - 52" using exponent_of_le_0 [OF pos assms(2)] by (simp add: e_def)
  then have "s \<le> 2 powi (- 52)" unfolding s_def by (intro power_int_increasing) simp_all
  then have s52: "s \<le> 1 / 2 ^ 52" by (simp add: power_int_minus field_simps)
  have spos: "0 < s" by (simp add: s_def)
  have td: "to_double x = of_int (round_half_even (x / s)) * s"
    using False by (simp add: to_double_def e_def s_def Let_def)
  have "to_double x - x = (of_int (round_half_even (x / s)) - x / s) * s"
    using spos by (simp add: td field_simps)
  then have "\<bar>to_double x - x\<bar> = \<bar>of_int (round_half_even (x / s)) - x / s\<bar> * s"
    using spos by (simp add: abs_mult)
  also have "\<dots> \<le> (1 / 2) * s"
    using round_half_even_error [of "x / s"] spos by (intro mult_right_mono) simp_all
  also have "\<dots> \<le> (1 / 2) * (1 / 2 ^ 52)"
    using s52 by simp
  finally show ?thesis by simp
qed

lemma to_double_gt_iff:
  assumes x: "0 \<le> x" "x \<le> 1" and c: "0 \<le> c" "c \<le> 1"
    and gap: "x = c \<or> 1 / 100 \<le> \<bar>x - c\<bar>"
  shows "to_double c < to_double x \<longleftrightarrow> c < x"
proof (cases "x = c")
  case True
  then show ?thesis by simp
next
  case False
  with gap have g: "1 / 100 \<le> \<bar>x - c\<bar>" by simp
  have small: "(1::rat) / 2 ^ 53 < 1 / 200" by simp
  from to_double_error [OF x] to_double_error [OF c] g small show ?thesis
    by linarith
qed

lemma rate_gap:
  fixes k n :: nat and p :: nat
  assumes "0 < n" "n \<le> 10" "p \<le> 10"
  shows "(of_nat k / of_nat n :: rat) = of_nat p / 10 \<or> 1 / 100 \<le> \<bar>of_nat k / of_nat n - of_nat p / (10::rat)\<bar>"
proof -
  have n: "(0::rat) < of_nat n" using assms by simp
  consider "10 * k = p * n" | "10 * k < p * n" | "10 * k > p * n" by arith
  then show ?thesis
  proof cases
    case 1
    then have "(10::rat) * of_nat k = of_nat p * of_nat n" by (metis of_nat_mult of_nat_numeral)
    then show ?thesis using n by (simp add: field_simps)
  next
    case 2
    then have "100 * k + n \<le> 10 * p * n" using assms by (auto simp: )  
    then have "(100::rat) * of_nat k + of_nat n \<le> 10 * of_nat p * of_nat n" by (metis of_nat_mult of_nat_numeral of_nat_add of_nat_le_iff)
    then have "of_nat p / 10 - of_nat k / of_nat n \<ge> (1::rat) / 100" using n by (simp add: field_simps)
    then show ?thesis by linarith
  next
    case 3
    then have "10 * p * n + n \<le> 100 * k" using assms by auto
    then have "10 * of_nat p * of_nat n + of_nat n \<le> (100::rat) * of_nat k" by (metis of_nat_mult of_nat_numeral of_nat_add of_nat_le_iff)
    then have "of_nat k / of_nat n - of_nat p / 10 \<ge> (1::rat) / 100" using n by (simp add: field_simps)
    then show ?thesis by linarith
  qed
qed

lemma error_rate_tiers:
  fixes k n :: nat
  assumes "0 < n" "n \<le> 10" "k \<le> n"
  shows "to_double 0.5 < to_double (of_nat k / of_nat n) \<longleftrightarrow> (1 / 2 :: rat) < of_nat k / of_nat n"
    and "to_double 0.3 < to_double (of_nat k / of_nat n) \<longleftrightarrow> (3 / 10 :: rat) < of_nat k / of_nat n"
    and "to_double 0.1 < to_double (of_nat k / of_nat n) \<longleftrightarrow> (1 / 10 :: rat) < of_nat k / of_nat n"
proof -
  let ?x = "of_nat k / of_nat n :: rat"
  have x: "0 \<le> ?x" "?x \<le> 1" using assms by simp_all
  from rate_gap [OF assms(1,2), of 5 k] have "?x = 0.5 \<or> 1 / 100 \<le> \<bar>?x - 0.5\<bar>" by simp
  from to_double_gt_iff [OF x _ _ this]
  show "to_double 0.5 < to_double ?x \<longleftrightarrow> 1 / 2 < ?x" by simp
  from rate_gap [OF assms(1,2), of 3 k] have "?x = 0.3 \<or> 1 / 100 \<le> \<bar>?x - 0.3\<bar>" by simp
  from to_double_gt_iff [OF x _ _ this]
  show "to_double 0.3 < to_double ?x \<longleftrightarrow> 3 / 10 < ?x" by simp
  from rate_gap [OF assms(1,2), of 1 k] have "?x = 0.1 \<or> 1 / 100 \<le> \<bar>?x - 0.1\<bar>" by simp
  from to_double_gt_iff [OF x _ _ this]
  show "to_double 0.1 < to_double ?x \<longleftrightarrow> 1 / 10 < ?x" by simp
qed

lemma ladder_on_doubles:
  fixes k n :: nat
  assumes "0 < n" "n \<le> 10" "k \<le> n"
  shows "(if to_double (of_nat k / of_nat n) > to_double 0.5 then 120000
          else if to_double (of_nat k / of_nat n) > to_double 0.3 then 60000
          else if to_double (of_nat k / of_nat n) > to_double 0.1 then 45000
          else 30000)
         = delay_ladder (of_nat k / of_nat n)"
  unfolding delay_ladder_def error_rate_tiers [OF assms] by (rule refl)

lemma scan_history_take:
  "length acc \<le> 10 \<Longrightarrow>
   scan_history accountNumber ts acc =
     take 10 (acc @ List.map_filter
                      (\<lambda>tweet. find (\<lambda>a. o_accountNumber a = accountNumber) (h_accounts tweet))
                      ts)"
proof (induction ts arbitrary: acc)
  case Nil
  then show ?case by (simp add: map_filter_simps)
next
  case (Cons t ts)
  show ?case
  proof (cases "length acc < 10")
    case False
    with Cons.prems show ?thesis by simp
  next
    case True
    then have "length (acc @ [a]) \<le> 10" for a by simp
    from Cons.IH [OF this] Cons.IH [OF Cons.prems] True show ?thesis
      by (simp add: map_filter_simps split: option.splits)
  qed
qed

lemma scan_history_sampled:
  "scan_history accountNumber (rev history) [] = sampled_outcomes accountNumber history"
  by (simp add: scan_history_take sampled_outcomes_def)

lemma length_sampled_outcomes: "length (sampled_outcomes accountNumber history) \<le> 10"
  by (simp add: sampled_outcomes_def)

text \<open>
  Claim C3: \<open>calculateSmartDelay\<close> returns 30000 for an absent history. Otherwise it
  samples the outcomes for the account in the ten most recent entries at most that contain
  one, read from the newest to the oldest; with fewer than three of them (so also for an
  empty history) it returns 30000, and otherwise the value of the ladder at the exact
  error rate \<open>failedCount / sampleSize\<close>: 120000 above 0.5, else 60000 above 0.3, else 45000
  above 0.1, else 30000, so that the rates 0.5, 0.3 and 0.1 themselves fall to the lower
  tier. The code compares doubles; for the quotients that can occur this is the comparison
  of the exact rates.
\<close>

theorem calculateSmartDelay_ladder:
  "calculateSmartDelay accountNumber None = 30000
   \<and> calculateSmartDelay accountNumber (Some history) =
       (let sample = sampled_outcomes accountNumber history;
            failedCount = length (filter (\<lambda>t. \<not> o_success t) sample)
        in if length sample < 3 then 30000
           else delay_ladder (of_nat failedCount / of_nat (length sample)))
   \<and> length (sampled_outcomes accountNumber history) \<le> 10
   \<and> delay_ladder (1 / 2) = 60000 \<and> delay_ladder (3 / 10) = 45000
   \<and> delay_ladder (1 / 10) = 30000"
proof -
  let ?s = "sampled_outcomes accountNumber history"
  let ?k = "length (filter (\<lambda>t. \<not> o_success t) ?s)"
  have none: "calculateSmartDelay accountNumber None = 30000"
    by (simp add: calculateSmartDelay_def)
  have some: "calculateSmartDelay accountNumber (Some history) =
       (if length ?s < 3 then 30000 else delay_ladder (of_nat ?k / of_nat (length ?s)))"
  proof (cases "length ?s < 3")
    case True
    then show ?thesis
      by (simp add: calculateSmartDelay_def scan_history_sampled Let_def)
  next
    case False
    then have "3 \<le> length ?s" by simp
    then have n: "0 < length ?s" "length ?s \<le> 10" "?k \<le> length ?s"
      by (linarith, simp_all add: length_sampled_outcomes)
    from False have h: "length history \<noteq> 0"
      by (auto simp: sampled_outcomes_def map_filter_simps)
    show ?thesis
      unfolding calculateSmartDelay_def Let_def option.case scan_history_sampled
        ladder_on_doubles [OF n]
      using False h by simp
  qed
  show ?thesis
    by (simp add: none some Let_def length_sampled_outcomes delay_ladder_def)
qed

theorem calculateSmartDelay_ladder_witness:
  "calculateSmartDelay 1
     (Some [ex_entry False, ex_entry True, ex_entry False, ex_entry True, ex_entry False,
            ex_entry True, ex_entry False, ex_entry True, ex_entry False, ex_entry True])
     = 60000
   \<and> calculateSmartDelay 1
     (Some [ex_entry False, ex_entry True, ex_entry False, ex_entry True, ex_entry False,
            ex_entry True, ex_entry True, ex_entry True, ex_entry True, ex_entry True])
     = 45000
   \<and> calculateSmartDelay 1
     (Some [ex_entry False, ex_entry True, ex_entry True, ex_entry True, ex_entry True,
            ex_entry True, ex_entry True, ex_entry True, ex_entry True, ex_entry True])
     = 30000
   \<and> calculateSmartDelay 1 (Some [ex_entry False, ex_entry False, ex_entry False]) = 120000
   \<and> calculateSmartDelay 1 (Some [ex_entry False, ex_entry False]) = 30000"
  using calculateSmartDelay_ladder [of 1
      "[ex_entry False, ex_entry True, ex_entry False, ex_entry True, ex_entry False,
        ex_entry True, ex_entry False, ex_entry True, ex_entry False, ex_entry True]"]
    calculateSmartDelay_ladder [of 1
      "[ex_entry False, ex_entry True, ex_entry False, ex_entry True, ex_entry False,
        ex_entry True, ex_entry True, ex_entry True, ex_entry True, ex_entry True]"]
    calculateSmartDelay_ladder [of 1
      "[ex_entry False, ex_entry True, ex_entry True, ex_entry True, ex_entry True,
        ex_entry True, ex_entry True, ex_entry True, ex_entry True, ex_entry True]"]
    calculateSmartDelay_ladder [of 1 "[ex_entry False, ex_entry False, ex_entry False]"]
    calculateSmartDelay_ladder [of 1 "[ex_entry False, ex_entry False]"]
  by (simp add: sampled_outcomes_def map_filter_simps ex_entry_def delay_ladder_def Let_def)

section \<open>The posting primitive\<close>

lemma post_success:
  "try_tweet provider tweetText obj w = (Inr i, w1) \<Longrightarrow>
   postTweetWithClient provider clock tweetText obj config retryCount w =
     (Inr \<lparr>r_success = True, r_response_id = Some i, r_error = None,
           r_accountNumber = c_accountNumber obj\<rparr>, w1)"
  by (simp add: postTweetWithClient.simps)

lemma post_nullish:
  "try_tweet provider tweetText obj w = (Inl Nullish, w1) \<Longrightarrow>
   postTweetWithClient provider clock tweetText obj config retryCount w =
     (Inr \<lparr>r_success = False, r_response_id = None, r_error = Some TypeError,
           r_accountNumber = c_accountNumber obj\<rparr>, w1)"
  by (simp add: postTweetWithClient.simps)

lemma post_rate_limited:
  "try_tweet provider tweetText obj w = (Inl (ErrorObj (Some 429) m), w1) \<Longrightarrow> 0 < retryCount \<Longrightarrow>
   postTweetWithClient provider clock tweetText obj config retryCount w =
     postTweetWithClient provider clock tweetText obj config (retryCount - 1)
       (sleep (waitTime config) w1)"
  by (subst postTweetWithClient.simps) simp

lemma post_duplicate:
  "try_tweet provider tweetText obj w = (Inl (ErrorObj (Some 187) m), w1) \<Longrightarrow> 0 < retryCount \<Longrightarrow>
   postTweetWithClient provider clock tweetText obj config retryCount w =
     postTweetWithClient provider clock
       (uniqueTweet (substring (toISOString (clock w1)) 11 19) tweetText) obj config
       (retryCount - 1) (sleep 2000 (w1\<lparr>clock_reads := Suc (clock_reads w1)\<rparr>))"
  by (subst postTweetWithClient.simps) (simp add: new_Date_def)

lemma post_terminal:
  "try_tweet provider tweetText obj w = (Inl (ErrorObj c m), w1) \<Longrightarrow>
   \<not> ((c = Some 429 \<or> c = Some 187) \<and> 0 < retryCount) \<Longrightarrow>
   postTweetWithClient provider clock tweetText obj config retryCount w =
     (Inr \<lparr>r_success = False, r_response_id = None, r_error = Some (ErrorObj c m),
           r_accountNumber = c_accountNumber obj\<rparr>,
      saveFailedTweet clock tweetText (c_accountNumber obj) w1)"
  by (subst postTweetWithClient.simps) (auto simp: Let_def)

lemma try_tweet_invalid:
  "tweetText = [] \<or> 280 < length tweetText \<Longrightarrow>
   try_tweet provider tweetText obj w =
     (Inl (ErrorObj None (if tweetText = [] then js ''Tweet text is empty''
                          else js ''Tweet text exceeds maximum length of 280 characters'')), w)"
  by (auto simp: try_tweet_def)

lemma try_tweet_valid:
  "tweetText \<noteq> [] \<Longrightarrow> length tweetText \<le> 280 \<Longrightarrow>
   try_tweet provider tweetText obj w =
     ((case provider w (c_client obj) tweetText of
         Threw e \<Rightarrow> Inl e
       | Responded None \<Rightarrow> Inl (ErrorObj None (js ''Invalid response from Twitter API''))
       | Responded (Some i) \<Rightarrow>
           if i = [] then Inl (ErrorObj None (js ''Invalid response from Twitter API''))
           else Inr i),
      w\<lparr>tweeted := tweeted w @ [(c_client obj, tweetText)]\<rparr>)"
  by (auto simp: try_tweet_def Let_def split: tweet_outcome.splits option.splits)


lemma try_tweet_world:
  "try_tweet provider tweetText obj w = (x, w1) \<Longrightarrow>
   slept w1 = slept w \<and> length (tweeted w1) \<le> Suc (length (tweeted w))"
  by (auto simp: try_tweet_def Let_def split: if_splits tweet_outcome.splits option.splits)

lemma saveFailedTweet_world:
  "tweeted (saveFailedTweet clock t a w) = tweeted w \<and> slept (saveFailedTweet clock t a w) = slept w"
  by (simp add: saveFailedTweet_def new_Date_def Let_def split: json_file.splits)


lemma post_tweeted_extends:
  "\<exists>ext. tweeted (snd (postTweetWithClient provider clock tweetText obj config retryCount w))
         = tweeted w @ ext"
proof (induction "nat retryCount" arbitrary: retryCount tweetText w rule: less_induct)
  case less
  obtain x w1 where tt: "try_tweet provider tweetText obj w = (x, w1)"
    by (cases "try_tweet provider tweetText obj w")
  have tw: "\<exists>ext. tweeted w1 = tweeted w @ ext"
    using tt by (auto simp: try_tweet_def Let_def split: if_splits tweet_outcome.splits option.splits)
  show ?case
  proof (cases x)
    case (Inr i)
    with tt have t: "try_tweet provider tweetText obj w = (Inr i, w1)" by simp
    show ?thesis using tw by (simp add: post_success [OF t])
  next
    case (Inl e)
    show ?thesis
    proof (cases e)
      case Nullish
      with tt Inl have t: "try_tweet provider tweetText obj w = (Inl Nullish, w1)" by simp
      show ?thesis using tw by (simp add: post_nullish [OF t])
    next
      case (ErrorObj c m)
      with tt Inl have t: "try_tweet provider tweetText obj w = (Inl (ErrorObj c m), w1)"
        by simp
      consider (rate) "c = Some 429" "0 < retryCount"
        | (dup) "c = Some 187" "0 < retryCount"
        | (final) "\<not> ((c = Some 429 \<or> c = Some 187) \<and> 0 < retryCount)"
        by blast
      then show ?thesis
      proof cases
        case rate
        from rate(2) have d: "nat (retryCount - 1) < nat retryCount" by simp
        from less [OF d, of tweetText "sleep (waitTime config) w1"] tw show ?thesis
          unfolding post_rate_limited [OF t [unfolded rate(1)] rate(2)]
          by (auto simp: sleep_def)
      next
        case dup
        from dup(2) have d: "nat (retryCount - 1) < nat retryCount" by simp
        from less [OF d, of "uniqueTweet (substring (toISOString (clock w1)) 11 19) tweetText"
            "sleep 2000 (w1\<lparr>clock_reads := Suc (clock_reads w1)\<rparr>)"] tw show ?thesis
          unfolding post_duplicate [OF t [unfolded dup(1)] dup(2)]
          by (auto simp: sleep_def)
      next
        case final
        show ?thesis using tw by (simp add: post_terminal [OF t final] saveFailedTweet_world)
      qed
    qed
  qed
qed

lemma post_tweeted_first:
  assumes "tweetText \<noteq> []" "length tweetText \<le> 280"
  shows "\<exists>ext. tweeted (snd (postTweetWithClient provider clock tweetText obj config retryCount w))
         = tweeted w @ (c_client obj, tweetText) # ext"
proof -
  let ?w1 = "w\<lparr>tweeted := tweeted w @ [(c_client obj, tweetText)]\<rparr>"
  obtain x where tt: "try_tweet provider tweetText obj w = (x, ?w1)"
    using try_tweet_valid [OF assms] by simp
  show ?thesis
  proof (cases x)
    case (Inr i)
    with tt have t: "try_tweet provider tweetText obj w = (Inr i, ?w1)" by simp
    show ?thesis by (simp add: post_success [OF t])
  next
    case (Inl e)
    show ?thesis
    proof (cases e)
      case Nullish
      with tt Inl have t: "try_tweet provider tweetText obj w = (Inl Nullish, ?w1)" by simp
      show ?thesis by (simp add: post_nullish [OF t])
    next
      case (ErrorObj c m)
      with tt Inl have t: "try_tweet provider tweetText obj w = (Inl (ErrorObj c m), ?w1)"
        by simp
      consider (rate) "c = Some 429" "0 < retryCount"
        | (dup) "c = Some 187" "0 < retryCount"
        | (final) "\<not> ((c = Some 429 \<or> c = Some 187) \<and> 0 < retryCount)"
        by blast
      then show ?thesis
      proof cases
        case rate
        from post_tweeted_extends [of provider clock tweetText obj config "retryCount - 1"
            "sleep (waitTime config) ?w1"]
        show ?thesis
          unfolding post_rate_limited [OF t [unfolded rate(1)] rate(2)]
          by (auto simp: sleep_def)
      next
        case dup
        from post_tweeted_extends [of provider clock
            "uniqueTweet (substring (toISOString (clock ?w1)) 11 19) tweetText" obj config
            "retryCount - 1" "sleep 2000 (?w1\<lparr>clock_reads := Suc (clock_reads ?w1)\<rparr>)"]
        show ?thesis
          unfolding post_duplicate [OF t [unfolded dup(1)] dup(2)]
          by (auto simp: sleep_def)
      next
        case final
        show ?thesis by (simp add: post_terminal [OF t final] saveFailedTweet_world)
      qed
    qed
  qed
qed

text \<open>
  Claim C4: on an empty text and on a text of more than 280 characters
  \<open>postTweetWithClient\<close> returns a failed result that carries the validation error; the
  provider is not called and nothing sleeps (no retry), whatever the retry budget. The only
  effect is the entry that \<open>saveFailedTweet\<close> appends to the failure queue.
\<close>

theorem postTweetWithClient_rejects_invalid_text:
  "tweetText = [] \<or> 280 < length tweetText \<Longrightarrow>
   (let (res, w') = postTweetWithClient provider clock tweetText obj config retryCount w
    in res = Inr \<lparr>r_success = False, r_response_id = None,
                  r_error = Some (ErrorObj None
                     (if tweetText = [] then js ''Tweet text is empty''
                      else js ''Tweet text exceeds maximum length of 280 characters'')),
                  r_accountNumber = c_accountNumber obj\<rparr>
       \<and> w' = saveFailedTweet clock tweetText (c_accountNumber obj) w
       \<and> tweeted w' = tweeted w \<and> slept w' = slept w)"
  by (simp add: post_terminal [OF try_tweet_invalid] saveFailedTweet_world)

theorem postTweetWithClient_rejects_invalid_text_witness:
  "(replicate 281 (0x61 :: code_unit) = [] \<or> 280 < length (replicate 281 (0x61 :: code_unit)))
   \<and> postTweetWithClient always_ok ex_clock (replicate 281 0x61) ex_client ex_config 1 ex_world
     = (Inr \<lparr>r_success = False, r_response_id = None,
             r_error = Some (ErrorObj None
                (js ''Tweet text exceeds maximum length of 280 characters'')),
             r_accountNumber = 1\<rparr>,
        saveFailedTweet ex_clock (replicate 281 0x61) 1 ex_world)"
  using postTweetWithClient_rejects_invalid_text
    [of "replicate 281 0x61" always_ok ex_clock ex_client ex_config 1 ex_world]
  by (simp add: Let_def case_prod_unfold ex_client_def prod_eq_iff)



text \<open>
  Claim C9: with a retry budget \<open>retryCount \<ge> 0\<close> the call ends with a result after at most
  \<open>retryCount\<close> retries (each retry is preceded by exactly one sleep and takes one unit of
  the budget) and so after at most \<open>retryCount + 1\<close> calls of the provider: one call at most
  for the first attempt and for each retry.
\<close>

theorem postTweetWithClient_bounded_attempts:
  "0 \<le> retryCount \<Longrightarrow>
   (let (res, w') = postTweetWithClient provider clock tweetText obj config retryCount w
    in (\<exists>r. res = Inr r)
       \<and> length (slept w) \<le> length (slept w')
       \<and> length (slept w') \<le> length (slept w) + nat retryCount
       \<and> length (tweeted w') + length (slept w) \<le> length (tweeted w) + length (slept w') + 1
       \<and> length (tweeted w') \<le> length (tweeted w) + nat retryCount + 1)"
proof (induction "nat retryCount" arbitrary: retryCount tweetText w rule: less_induct)
  case less
  obtain x w1 where tt: "try_tweet provider tweetText obj w = (x, w1)"
    by (cases "try_tweet provider tweetText obj w")
  note tw = try_tweet_world [OF tt]
  show ?case
  proof (cases x)
    case (Inr i)
    with tt have t: "try_tweet provider tweetText obj w = (Inr i, w1)" by simp
    show ?thesis using tw by (simp add: post_success [OF t])
  next
    case (Inl e)
    show ?thesis
    proof (cases e)
      case Nullish
      with tt Inl have t: "try_tweet provider tweetText obj w = (Inl Nullish, w1)" by simp
      show ?thesis using tw by (simp add: post_nullish [OF t])
    next
      case (ErrorObj c m)
      with tt Inl have t: "try_tweet provider tweetText obj w = (Inl (ErrorObj c m), w1)"
        by simp
      consider (rate) "c = Some 429" "0 < retryCount"
        | (dup) "c = Some 187" "0 < retryCount"
        | (final) "\<not> ((c = Some 429 \<or> c = Some 187) \<and> 0 < retryCount)"
        by blast
      then show ?thesis
      proof cases
        case rate
        from rate(2) have d: "nat (retryCount - 1) < nat retryCount" "0 \<le> retryCount - 1"
          by simp_all
        from less(1) [OF d, of tweetText "sleep (waitTime config) w1"] show ?thesis
          using t rate tw
          by (auto simp: post_rate_limited sleep_def split: prod.splits)
      next
        case dup
        from dup(2) have d: "nat (retryCount - 1) < nat retryCount" "0 \<le> retryCount - 1"
          by simp_all
        from less(1) [OF d, of "uniqueTweet (substring (toISOString (clock w1)) 11 19) tweetText"
            "sleep 2000 (w1\<lparr>clock_reads := Suc (clock_reads w1)\<rparr>)"] show ?thesis
          using t dup tw
          by (auto simp: post_duplicate sleep_def split: prod.splits)
      next
        case final
        show ?thesis using tw by (simp add: post_terminal [OF t final] saveFailedTweet_world)
      qed
    qed
  qed
qed

theorem postTweetWithClient_bounded_attempts_witness:
  "(0::int) \<le> 1
   \<and> length (tweeted (snd (postTweetWithClient always_duplicate ex_clock (js ''gm'') ex_client
                             ex_config 1 ex_world))) \<le> 2"
  using postTweetWithClient_bounded_attempts
    [of 1 always_duplicate ex_clock "js ''gm''" ex_client ex_config ex_world]
  by (simp add: Let_def case_prod_unfold ex_world_def)

section \<open>The duplicate-content retry\<close>

lemma length_decimal: "0 < k \<Longrightarrow> n < 10 ^ k \<Longrightarrow> length (decimal n) \<le> k"
proof (induction k arbitrary: n)
  case 0
  then show ?case by simp
next
  case (Suc k)
  show ?case
  proof (cases "n < 10")
    case True
    then show ?thesis by (simp add: decimal.simps)
  next
    case False
    with Suc.prems have "0 < k" by (cases k) auto
    moreover from Suc.prems have "n div 10 < 10 ^ k" by (simp add: less_mult_imp_div_less mult.commute)
    ultimately have "length (decimal (n div 10)) \<le> k" by (rule Suc.IH)
    with False show ?thesis by (subst decimal.simps) simp
  qed
qed

lemma decimal_nonempty: "decimal n \<noteq> []"
  by (subst decimal.simps) simp

lemma padStart_two_digits: "n < 100 \<Longrightarrow> padStart (decimal n) 2 0x30 = two_digits n"
proof (cases "n < 10")
  case True
  then show ?thesis by (simp add: padStart_def decimal.simps two_digits_def)
next
  case False
  assume "n < 100"
  then have "n div 10 < 10" by simp
  then have "decimal (n div 10) = [of_nat (48 + n div 10)]" by (simp add: decimal.simps)
  with False show ?thesis
    by (subst decimal.simps) (simp add: padStart_def two_digits_def)
qed

lemma length_padStart: "length (padStart s n c) = max n (length s)"
  by (simp add: padStart_def)

lemma slice_toISOString:
  assumes "valid_date d"
  shows "js ''['' @ substring (toISOString d) 11 19 @ js '']'' = time_marker d"
proof -
  from assms have y: "length (padStart (decimal (year d)) 4 0x30) = 4"
    using length_decimal [of 4 "year d"] by (simp add: length_padStart valid_date_def)
  from assms have "month d < 100" "day d < 100" "hours d < 100" "minutes d < 100" "seconds d < 100"
    by (simp_all add: valid_date_def)
  then show ?thesis using assms y
    by (simp add: toISOString_def valid_date_def padStart_two_digits substring_def time_marker_def js_def two_digits_def)
qed

lemma length_slice_toISOString: "length (substring (toISOString d) 11 19) = 8"
proof -
  have "19 \<le> length (toISOString d)"
    by (simp add: toISOString_def length_padStart js_def)
  then show ?thesis by (simp add: substring_def)
qed

lemma uniqueTweet_no_token:
  assumes "\<forall>a b. tweetText \<noteq> a @ mention_token @ b"
  shows "uniqueTweet ts tweetText = tweetText @ js '' ['' @ ts @ js '']''"
proof -
  have "indexOf tweetText (js ''@giverep'') = None"
  proof (rule ccontr)
    assume "indexOf tweetText (js ''@giverep'') \<noteq> None"
    then obtain i where "indexOf tweetText (js ''@giverep'') = Some i" by auto
    from indexOf_Some [OF this] obtain r where "drop i tweetText = mention_token @ r"
      by (auto simp: startsWith_iff mention_token_def)
    then have "tweetText = take i tweetText @ mention_token @ r"
      by (metis append_take_drop_id)
    with assms show False by blast
  qed
  then show ?thesis by (simp add: uniqueTweet_def includes_str_def)
qed

lemma uniqueTweet_at_token:
  assumes split: "tweetText = pre @ mention_token @ post"
    and first: "\<forall>a b. tweetText = a @ mention_token @ b \<longrightarrow> length pre \<le> length a"
  shows "uniqueTweet ts tweetText = pre @ js ''['' @ ts @ js ''] '' @ mention_token @ post"
proof -
  have sw: "startsWith (drop (length pre) tweetText) (js ''@giverep'')"
    using occurrence_startsWith [OF split] by (simp add: mention_token_def)
  obtain i where i: "indexOf tweetText (js ''@giverep'') = Some i"
    using indexOf_None [of tweetText "js ''@giverep''" "length pre"] sw by (cases "indexOf tweetText (js ''@giverep'')") auto
  note f = indexOf_Some [OF i]
  from f obtain r where r: "drop i tweetText = mention_token @ r"
    by (auto simp: startsWith_iff mention_token_def)
  then have "tweetText = take i tweetText @ mention_token @ r"
    by (metis append_take_drop_id)
  with first have "length pre \<le> length (take i tweetText)" by blast
  with f have "length pre \<le> i" by simp
  moreover have "\<not> length pre < i" using f sw by blast
  ultimately have "i = length pre" by simp
  with i split show ?thesis
    by (simp add: uniqueTweet_def includes_str_def substring_def substring_from_def)
qed

lemma length_uniqueTweet:
  "length (uniqueTweet ts tweetText) = length tweetText + length ts + 3"
proof (cases "indexOf tweetText (js ''@giverep'')")
  case None
  then show ?thesis by (simp add: uniqueTweet_def includes_str_def js_def)
next
  case (Some i)
  from indexOf_Some [OF this] have "i \<le> length tweetText" by simp
  with Some show ?thesis
    by (simp add: uniqueTweet_def includes_str_def js_def substring_def substring_from_def)
qed

lemma no_token_in_replicate_a:
  "\<forall>a b. replicate n (0x61 :: code_unit) \<noteq> a @ mention_token @ b"
proof (intro allI notI)
  fix a b
  assume "replicate n (0x61 :: code_unit) = a @ mention_token @ b"
  then have "set (a @ mention_token @ b) \<subseteq> {0x61}" by (metis set_replicate_conv_if empty_subsetI subset_refl)
  then show False by (simp add: mention_token_def js_def)
qed

text \<open>
  Claim C5: when the provider answers a valid text with error code 187 and a retry is
  left, the call continues as the call on the retried text with one retry less, after a
  sleep of two seconds. The retried text is the original with the marker \<open>[HH:MM:SS]\<close> of
  the current time: when the text contains the mention token, the marker and a space are
  inserted immediately before the first occurrence of the token, and otherwise a space and
  the marker are appended at the end; the rest of the text is unchanged. When the retried
  text passes the validation, it is the text of the next call of the provider.
\<close>

theorem duplicate_retry_inserts_time_marker:
  assumes valid: "tweetText \<noteq> []" "length tweetText \<le> 280"
    and dup: "provider w (c_client obj) tweetText = Threw (ErrorObj (Some 187) m)"
    and retries: "0 < retryCount"
    and date: "valid_date (clock (w\<lparr>tweeted := tweeted w @ [(c_client obj, tweetText)]\<rparr>))"
  shows "let w1 = w\<lparr>tweeted := tweeted w @ [(c_client obj, tweetText)]\<rparr>;
             marker = time_marker (clock w1);
             retried = uniqueTweet (substring (toISOString (clock w1)) 11 19) tweetText;
             w2 = sleep 2000 (w1\<lparr>clock_reads := Suc (clock_reads w1)\<rparr>)
         in postTweetWithClient provider clock tweetText obj config retryCount w
              = postTweetWithClient provider clock retried obj config (retryCount - 1) w2
            \<and> (\<forall>pre post.
                  tweetText = pre @ mention_token @ post
                  \<and> (\<forall>a b. tweetText = a @ mention_token @ b \<longrightarrow> length pre \<le> length a)
                  \<longrightarrow> retried = pre @ marker @ js '' '' @ mention_token @ post)
            \<and> ((\<forall>a b. tweetText \<noteq> a @ mention_token @ b)
                  \<longrightarrow> retried = tweetText @ js '' '' @ marker)
            \<and> (length retried \<le> 280 \<longrightarrow>
                  (\<exists>ext. tweeted (snd (postTweetWithClient provider clock tweetText obj config
                                         retryCount w))
                         = tweeted w @ (c_client obj, tweetText) # (c_client obj, retried) # ext))"
proof -
  let ?w1 = "w\<lparr>tweeted := tweeted w @ [(c_client obj, tweetText)]\<rparr>"
  let ?ts = "substring (toISOString (clock ?w1)) 11 19"
  let ?retried = "uniqueTweet ?ts tweetText"
  let ?w2 = "sleep 2000 (?w1\<lparr>clock_reads := Suc (clock_reads ?w1)\<rparr>)"
  have t: "try_tweet provider tweetText obj w = (Inl (ErrorObj (Some 187) m), ?w1)"
    using try_tweet_valid [OF valid] dup by simp
  have eq: "postTweetWithClient provider clock tweetText obj config retryCount w
              = postTweetWithClient provider clock ?retried obj config (retryCount - 1) ?w2"
    by (rule post_duplicate [OF t retries])
  have marker: "js ''['' @ ?ts @ js '']'' = time_marker (clock ?w1)"
    by (rule slice_toISOString [OF date])
  have at: "?retried = pre @ time_marker (clock ?w1) @ js '' '' @ mention_token @ post"
    if "tweetText = pre @ mention_token @ post"
      "\<forall>a b. tweetText = a @ mention_token @ b \<longrightarrow> length pre \<le> length a" for pre post
    using uniqueTweet_at_token [OF that, of ?ts] marker by (simp add: js_def)
  have no: "?retried = tweetText @ js '' '' @ time_marker (clock ?w1)"
    if "\<forall>a b. tweetText \<noteq> a @ mention_token @ b"
    using uniqueTweet_no_token [OF that, of ?ts] marker by (simp add: js_def)
  have trace: "\<exists>ext. tweeted (snd (postTweetWithClient provider clock tweetText obj config
                                         retryCount w))
                 = tweeted w @ (c_client obj, tweetText) # (c_client obj, ?retried) # ext"
    if "length ?retried \<le> 280"
  proof -
    have "?retried \<noteq> []" using length_uniqueTweet [of ?ts tweetText] by auto
    from post_tweeted_first [OF this that, of provider clock obj config "retryCount - 1" ?w2]
    show ?thesis unfolding eq by (simp add: sleep_def)
  qed
  show ?thesis unfolding Let_def using eq at no trace by blast
qed

theorem duplicate_retry_inserts_time_marker_witness:
  "js ''gm @giverep'' \<noteq> [] \<and> length (js ''gm @giverep'') \<le> 280
   \<and> always_duplicate ex_world (c_client ex_client) (js ''gm @giverep'')
       = Threw (ErrorObj (Some 187) (js ''duplicate''))
   \<and> (0::int) < 1
   \<and> valid_date (ex_clock (ex_world\<lparr>tweeted := tweeted ex_world
                                         @ [(c_client ex_client, js ''gm @giverep'')]\<rparr>))
   \<and> postTweetWithClient always_duplicate ex_clock (js ''gm @giverep'') ex_client ex_config 1
       ex_world
     = postTweetWithClient always_duplicate ex_clock (js ''gm [07:05:59] @giverep'') ex_client
         ex_config 0
         (ex_world\<lparr>tweeted := [(c_client ex_client, js ''gm @giverep'')], slept := [2000],
                    clock_reads := 1\<rparr>)"
proof -
  have h1: "js ''gm @giverep'' \<noteq> []" and h2: "length (js ''gm @giverep'') \<le> 280"
    by (simp_all add: js_def)
  have h3: "always_duplicate ex_world (c_client ex_client) (js ''gm @giverep'')
       = Threw (ErrorObj (Some 187) (js ''duplicate''))"
    by (simp add: always_duplicate_def)
  have h4: "(0::int) < 1" by simp
  have h5: "valid_date (ex_clock (ex_world\<lparr>tweeted := tweeted ex_world
                                         @ [(c_client ex_client, js ''gm @giverep'')]\<rparr>))"
    by (simp add: ex_clock_def ex_date_def valid_date_def)
  have u: "uniqueTweet (substring (toISOString ex_date) 11 19) (js ''gm @giverep'')
           = js ''gm [07:05:59] @giverep''"
    by (simp add: uniqueTweet_def includes_str_def substring_def substring_from_def
        toISOString_def ex_date_def padStart_def decimal.simps js_def)
  show ?thesis
    using h1 h2 h3 h4 h5 duplicate_retry_inserts_time_marker
      [where provider = always_duplicate and w = ex_world and obj = ex_client
         and clock = ex_clock and config = ex_config, OF h1 h2 h3 h4 h5]
    by (simp add: Let_def ex_clock_def u sleep_def ex_world_def)
qed

text \<open>
  Claim C10: the retried text is always exactly 11 characters longer than the original.
  So for a valid text of 270 to 280 characters that the provider answers with error code
  187 while a retry is left, the retried text has more than 280 characters: the retry fails
  the validation, the provider has been called once only (for the original text), and the
  entry appended to the failure queue carries the retried text with its time marker, which
  differs from the original text.
\<close>

theorem duplicate_retry_overflows:
  assumes len: "270 \<le> length tweetText" "length tweetText \<le> 280"
    and dup: "provider w (c_client obj) tweetText = Threw (ErrorObj (Some 187) m)"
    and retries: "0 < retryCount"
    and queue: "failed_tweets_json w \<noteq> NotArray"
  shows "let w1 = w\<lparr>tweeted := tweeted w @ [(c_client obj, tweetText)]\<rparr>;
             retried = uniqueTweet (substring (toISOString (clock w1)) 11 19) tweetText;
             w2 = sleep 2000 (w1\<lparr>clock_reads := Suc (clock_reads w1)\<rparr>);
             (res, w') = postTweetWithClient provider clock tweetText obj config retryCount w
         in length retried = length tweetText + 11
            \<and> 280 < length retried
            \<and> retried \<noteq> tweetText
            \<and> tweeted w' = tweeted w @ [(c_client obj, tweetText)]
            \<and> res = Inr \<lparr>r_success = False, r_response_id = None,
                          r_error = Some (ErrorObj None
                            (js ''Tweet text exceeds maximum length of 280 characters'')),
                          r_accountNumber = c_accountNumber obj\<rparr>
            \<and> failed_tweets_json w'
                = Entries ((case failed_tweets_json w of Entries q \<Rightarrow> q | _ \<Rightarrow> [])
                           @ [\<lparr>f_timestamp = toISOString (clock w2), f_text = retried,
                               f_accountNumber = c_accountNumber obj\<rparr>])"
proof -
  let ?w1 = "w\<lparr>tweeted := tweeted w @ [(c_client obj, tweetText)]\<rparr>"
  let ?ts = "substring (toISOString (clock ?w1)) 11 19"
  let ?retried = "uniqueTweet ?ts tweetText"
  let ?w2 = "sleep 2000 (?w1\<lparr>clock_reads := Suc (clock_reads ?w1)\<rparr>)"
  from len have valid: "tweetText \<noteq> []" "length tweetText \<le> 280" by auto
  have t: "try_tweet provider tweetText obj w = (Inl (ErrorObj (Some 187) m), ?w1)"
    using try_tweet_valid [OF valid] dup by simp
  have eq: "postTweetWithClient provider clock tweetText obj config retryCount w
              = postTweetWithClient provider clock ?retried obj config (retryCount - 1) ?w2"
    by (rule post_duplicate [OF t retries])
  have l: "length ?retried = length tweetText + 11"
    by (simp add: length_uniqueTweet length_slice_toISOString)
  with len have long: "280 < length ?retried" "?retried \<noteq> []" by auto
  have t2: "try_tweet provider ?retried obj ?w2 =
      (Inl (ErrorObj None (js ''Tweet text exceeds maximum length of 280 characters'')), ?w2)"
    using try_tweet_invalid [of ?retried provider obj ?w2] long by simp
  have fin: "postTweetWithClient provider clock ?retried obj config (retryCount - 1) ?w2
      = (Inr \<lparr>r_success = False, r_response_id = None,
                          r_error = Some (ErrorObj None
                            (js ''Tweet text exceeds maximum length of 280 characters'')),
                          r_accountNumber = c_accountNumber obj\<rparr>,
         saveFailedTweet clock ?retried (c_accountNumber obj) ?w2)"
    by (rule post_terminal [OF t2]) simp
  have q: "failed_tweets_json (saveFailedTweet clock ?retried (c_accountNumber obj) ?w2)
      = Entries ((case failed_tweets_json w of Entries q \<Rightarrow> q | _ \<Rightarrow> [])
                           @ [\<lparr>f_timestamp = toISOString (clock ?w2), f_text = ?retried,
                               f_accountNumber = c_accountNumber obj\<rparr>])"
    using queue
    by (cases "failed_tweets_json w") (simp_all add: saveFailedTweet_def new_Date_def sleep_def Let_def)
  have tw: "tweeted (saveFailedTweet clock ?retried (c_accountNumber obj) ?w2)
      = tweeted w @ [(c_client obj, tweetText)]"
    by (simp add: saveFailedTweet_world sleep_def)
  from l have ne: "?retried \<noteq> tweetText" by auto
  show ?thesis unfolding Let_def eq fin using l long(1) ne q tw by simp
qed

theorem duplicate_retry_overflows_witness:
  "270 \<le> length (replicate 270 (0x61 :: code_unit)) \<and> length (replicate 270 (0x61 :: code_unit)) \<le> 280
   \<and> always_duplicate ex_world (c_client ex_client) (replicate 270 0x61)
       = Threw (ErrorObj (Some 187) (js ''duplicate''))
   \<and> (0::int) < 1
   \<and> failed_tweets_json ex_world \<noteq> NotArray
   \<and> failed_tweets_json (snd (postTweetWithClient always_duplicate ex_clock (replicate 270 0x61)
                                 ex_client ex_config 1 ex_world))
     = Entries [\<lparr>f_timestamp = toISOString ex_date,
                 f_text = replicate 270 0x61 @ js '' [07:05:59]'',
                 f_accountNumber = 1\<rparr>]"
proof -
  have h1: "270 \<le> length (replicate 270 (0x61 :: code_unit))"
    and h2: "length (replicate 270 (0x61 :: code_unit)) \<le> 280" by simp_all
  have h3: "always_duplicate ex_world (c_client ex_client) (replicate 270 0x61)
       = Threw (ErrorObj (Some 187) (js ''duplicate''))"
    by (simp add: always_duplicate_def)
  have h4: "(0::int) < 1" by simp
  have h5: "failed_tweets_json ex_world \<noteq> NotArray" by (simp add: ex_world_def)
  have ts: "substring (toISOString ex_date) 11 19 = js ''07:05:59''"
    by (simp add: substring_def toISOString_def ex_date_def padStart_def decimal.simps js_def)
  have u: "uniqueTweet (js ''07:05:59'') (replicate 270 0x61)
           = replicate 270 0x61 @ js '' [07:05:59]''"
    using uniqueTweet_no_token [OF no_token_in_replicate_a, of "js ''07:05:59''" 270]
    by (simp add: js_def)
  show ?thesis
    using h1 h2 h3 h4 h5 duplicate_retry_overflows
      [where provider = always_duplicate and w = ex_world and obj = ex_client
         and clock = ex_clock and config = ex_config, OF h1 h2 h3 h4 h5]
    by (simp add: Let_def case_prod_unfold ex_clock_def ts u ex_world_def ex_client_def)
qed

section \<open>The retry pass over the failure queue\<close>














section \<open>The lazy loader\<close>

lemma load_line_step:
  "load_line accountNumber fileContent (c, acc) line =
     (Suc c,
      if \<not> (trim line = [] \<or> startsWith (trim line) (js ''#''))
         \<and> int (Suc c) - int (length (filter (\<lambda>l. trim l = [] \<or> startsWith (trim l) (js ''#''))
                                          (split fileContent 0x0A))) = accountNumber
      then (case parse_credentials line of
              Some cr \<Rightarrow> Some \<lparr>appKey = appKey cr, appSecret = appSecret cr,
                               accessToken = accessToken cr, accessSecret = accessSecret cr,
                               a_accountNumber = accountNumber\<rparr>
            | None \<Rightarrow> acc)
      else acc)"
  by (auto simp: load_line_def parse_credentials_def Let_def split: list.splits)

lemma foldl_load_line:
  "foldl (load_line accountNumber fileContent) (c, acc) ls =
     (c + length ls,
      (let i = accountNumber
               + int (length (filter (\<lambda>l. trim l = [] \<or> startsWith (trim l) (js ''#''))
                                (split fileContent 0x0A)))
       in if int c < i \<and> i \<le> int c + int (length ls)
             \<and> \<not> (trim (ls ! nat (i - int c - 1)) = []
                    \<or> startsWith (trim (ls ! nat (i - int c - 1))) (js ''#''))
          then (case parse_credentials (ls ! nat (i - int c - 1)) of
                  Some cr \<Rightarrow> Some \<lparr>appKey = appKey cr, appSecret = appSecret cr,
                                   accessToken = accessToken cr, accessSecret = accessSecret cr,
                                   a_accountNumber = accountNumber\<rparr>
                | None \<Rightarrow> acc)
          else acc))"
proof (induction ls arbitrary: c acc)
  case Nil
  show ?case by (auto simp: Let_def)
next
  case (Cons x xs)
  let ?S = "int (length (filter (\<lambda>l. trim l = [] \<or> startsWith (trim l) (js ''#''))
                                (split fileContent 0x0A)))"
  let ?i = "accountNumber + ?S"
  consider (here) "?i = int (Suc c)" | (later) "int (Suc c) < ?i" | (before) "?i < int (Suc c)"
    by linarith
  then show ?case
  proof cases
    case here
    then have "int (Suc c) - ?S = accountNumber" "nat (?i - int c - 1) = 0" by simp_all
    with here show ?thesis
      by (simp add: load_line_step Cons.IH Let_def)
  next
    case later
    then have ne: "int (Suc c) - ?S \<noteq> accountNumber" by simp
    from later have idx: "nat (?i - int c - 1) = Suc (nat (?i - int (Suc c) - 1))" by simp
    show ?thesis
      unfolding foldl_Cons load_line_step Cons.IH Let_def idx
      using later ne by (simp add: )
  next
    case before
    then have ne: "int (Suc c) - ?S \<noteq> accountNumber" by simp
    from before show ?thesis
      unfolding foldl_Cons load_line_step Cons.IH Let_def
      using ne by simp
  qed
qed

lemma lazyLoadTwitterClient_line:
  "fst (lazyLoadTwitterClient accountNumber [] (Some fileContent)) =
     (let lines = split fileContent 0x0A;
          i = accountNumber + int (length lines) - int (length (surviving_lines fileContent))
      in if 1 \<le> i \<and> i \<le> int (length lines)
            \<and> \<not> (trim (lines ! nat (i - 1)) = [] \<or> startsWith (trim (lines ! nat (i - 1))) (js ''#''))
         then map_option (\<lambda>cr. \<lparr>c_client = cr, c_accountNumber = accountNumber\<rparr>)
                (parse_credentials (lines ! nat (i - 1)))
         else None)"
proof -
  let ?lines = "split fileContent 0x0A"
  let ?sk = "\<lambda>l. trim l = [] \<or> startsWith (trim l) (js ''#'')"
  have "length (filter ?sk ?lines) + length (filter (\<lambda>l. \<not> ?sk l) ?lines) = length ?lines"
    by (rule sum_length_filter_compl)
  then have S: "int (length (filter ?sk ?lines))
      = int (length ?lines) - int (length (surviving_lines fileContent))"
    by (simp add: surviving_lines_def)
  show ?thesis
    unfolding lazyLoadTwitterClient_def
    by (auto simp: foldl_load_line S Let_def algebra_simps split: option.splits)
qed

lemma lazyLoadTwitterClient_without_final_newline:
  "fst (lazyLoadTwitterClient 1 [] (Some (js ''a,b,c,d'' @ [0x0A] @ js ''e,f,g,h'')))
     = Some \<lparr>c_client = \<lparr>appKey = js ''a'', appSecret = js ''b'', accessToken = js ''c'',
                          accessSecret = js ''d''\<rparr>,
             c_accountNumber = 1\<rparr>"
  by (simp add: lazyLoadTwitterClient_def load_line_def
      split_def trim_def is_ws_def js_def Let_def)

text \<open>
  Claim C2: for a requested account number N without a client, \<open>lazyLoadTwitterClient\<close>
  returns the client built from the N-th surviving data line of the credentials file. The
  code numbers a line by its position among all lines minus the number of blank and comment
  lines of the whole file, also those that follow it. In a file of two data lines that each
  end with a newline, the text after the last newline is a blank line: the first surviving
  line is \<open>a,b,c,d\<close>, but account 1 is built from \<open>e,f,g,h\<close>, and account 2 is not found.
\<close>

theorem lazyLoadTwitterClient_counts_later_blank_lines:
  "surviving_lines ex_accounts_txt = [js ''a,b,c,d'', js ''e,f,g,h'']
   \<and> fst (lazyLoadTwitterClient 1 [] (Some ex_accounts_txt))
       = Some \<lparr>c_client = \<lparr>appKey = js ''e'', appSecret = js ''f'', accessToken = js ''g'',
                            accessSecret = js ''h''\<rparr>,
               c_accountNumber = 1\<rparr>
   \<and> fst (lazyLoadTwitterClient 2 [] (Some ex_accounts_txt)) = None"
  by (simp add: surviving_lines_def lazyLoadTwitterClient_def load_line_def ex_accounts_txt_def
      split_def trim_def is_ws_def js_def Let_def)

end
